theory Spec2Isabelle
  imports Main
begin

section \<open>Arrays: the leaves of a structured value\<close>

text \<open>
  The leaves of an \<^verbatim>\<open>ArrayTree\<close> are numeric arrays. An array has an element type, a
  shape and its elements in row-major order. Floating-point and complex elements are kept
  as their bit patterns, so that equality of two arrays is bit-exact equality.
\<close>

datatype dtype =
    Bool | Int8 | Int16 | Int32 | Int64 | UInt8 | UInt16 | UInt32 | UInt64
  | Float16 | BFloat16 | Float32 | Float64 | Complex64 | Complex128

datatype scalar = BoolV bool | IntV int | FloatV nat | ComplexV nat nat

text \<open>The zero of each element type; the all-zero bit pattern of a float is \<open>+0.0\<close>.\<close>

fun zero_of :: "dtype \<Rightarrow> scalar" where
  "zero_of Bool = BoolV False"
| "zero_of Float16 = FloatV 0"
| "zero_of BFloat16 = FloatV 0"
| "zero_of Float32 = FloatV 0"
| "zero_of Float64 = FloatV 0"
| "zero_of Complex64 = ComplexV 0 0"
| "zero_of Complex128 = ComplexV 0 0"
| "zero_of _ = IntV 0"

record ndarray =
  dtype :: dtype
  shape :: "nat list"
  elems :: "scalar list"

text \<open>
  JAX runs under the configuration flag \<^verbatim>\<open>jax_enable_x64\<close>, set when the program
  starts and off unless the user turns it on. With the flag off, every array that JAX
  makes has an element type of at most 32 bits (64 for complex): a 64-bit element type
  asked for is replaced by its 32-bit counterpart.
\<close>

fun canonicalize_dtype :: "bool \<Rightarrow> dtype \<Rightarrow> dtype" where
  "canonicalize_dtype True d = d"
| "canonicalize_dtype False Int64 = Int32"
| "canonicalize_dtype False UInt64 = UInt32"
| "canonicalize_dtype False Float64 = Float32"
| "canonicalize_dtype False Complex128 = Complex64"
| "canonicalize_dtype False d = d"

text \<open>
  \<^verbatim>\<open>jnp.zeros_like(a)\<close>: an array with the shape of \<open>a\<close> and the element type of \<open>a\<close>
  as JAX makes it under the configuration, filled with zeros. The elements of \<open>a\<close> are
  not read.
\<close>

definition zeros_like :: "bool \<Rightarrow> ndarray \<Rightarrow> ndarray" where
  "zeros_like jax_enable_x64 a =
     (let dt = canonicalize_dtype jax_enable_x64 (dtype a)
      in \<lparr>dtype = dt, shape = shape a,
          elems = replicate (prod_list (shape a)) (zero_of dt)\<rparr>)"

section \<open>Structured values\<close>

text \<open>
  A \<^verbatim>\<open>NamedTuple\<close> class is its name and the names of its fields. A structured value
  (pytree) is a leaf or a container node with its children in flattening order; the kind
  of a node carries what the container has besides its children (the keys of a dict, the
  class of a named tuple). \<^verbatim>\<open>None\<close> is a node without children.
\<close>

record namedtuple_class =
  class_name :: string
  field_names :: "string list"

datatype node_kind =
    NoneNode | TupleNode | ListNode | DictNode "string list"
  | NamedTupleNode namedtuple_class

datatype pytree = Leaf ndarray | Node node_kind "pytree list"

text \<open>The structure of a pytree without its leaves (\<^verbatim>\<open>PyTreeDef\<close>).\<close>

datatype treedef = LeafDef | NodeDef node_kind "treedef list"

fun tree_leaves :: "pytree \<Rightarrow> ndarray list" where
  "tree_leaves (Leaf a) = [a]"
| "tree_leaves (Node k cs) = concat (map tree_leaves cs)"

fun tree_structure :: "pytree \<Rightarrow> treedef" where
  "tree_structure (Leaf a) = LeafDef"
| "tree_structure (Node k cs) = NodeDef k (map tree_structure cs)"

definition tree_flatten :: "pytree \<Rightarrow> ndarray list \<times> treedef" where
  "tree_flatten tree = (tree_leaves tree, tree_structure tree)"

text \<open>The number of leaf positions of a structure (\<^verbatim>\<open>PyTreeDef.num_leaves\<close>).\<close>

fun num_leaves :: "treedef \<Rightarrow> nat" where
  "num_leaves LeafDef = 1"
| "num_leaves (NodeDef k ds) = sum_list (map num_leaves ds)"

section \<open>Failures and effects\<close>

text \<open>
  A call either returns or raises. The structured-value operations raise on a structural
  mismatch; a wrapped function may raise anything. A Python function may also read and
  change state outside its arguments, so a call is modelled as a function of that outside
  state \<open>'w\<close>, returning its outcome and the new outside state.
\<close>

datatype failure = StructureMismatch | LeafCountMismatch | Raised string

type_synonym ('w, 'a) action = "'w \<Rightarrow> (failure + 'a) \<times> 'w"

definition returns :: "'a \<Rightarrow> ('w, 'a) action" where
  "returns x = (\<lambda>w. (Inr x, w))"

definition bind :: "('w, 'a) action \<Rightarrow> ('a \<Rightarrow> ('w, 'b) action) \<Rightarrow> ('w, 'b) action" where
  "bind m k = (\<lambda>w. case m w of (Inl e, w') \<Rightarrow> (Inl e, w') | (Inr x, w') \<Rightarrow> k x w')"

definition lift_result :: "failure + 'a \<Rightarrow> ('w, 'a) action" where
  "lift_result r = (\<lambda>w. (r, w))"

text \<open>Calling \<open>f\<close> on each element in turn; the first failure ends the loop.\<close>

fun map_calls :: "('a \<Rightarrow> ('w, 'b) action) \<Rightarrow> 'a list \<Rightarrow> ('w, 'b list) action" where
  "map_calls f [] = returns []"
| "map_calls f (x # xs) =
     bind (f x) (\<lambda>y. bind (map_calls f xs) (\<lambda>ys. returns (y # ys)))"

section \<open>Mapping over structured values\<close>

text \<open>
  \<^verbatim>\<open>treedef.flatten_up_to(tree)\<close>: the subtrees of \<open>tree\<close> at the leaf positions of
  \<open>treedef\<close>. It fails when a node of \<open>treedef\<close> meets a leaf, a node of another kind or a
  node with another number of children.
\<close>

fun flatten_up_to :: "treedef \<Rightarrow> pytree \<Rightarrow> failure + pytree list"
  and flatten_up_to_children :: "treedef list \<Rightarrow> pytree list \<Rightarrow> failure + pytree list" where
  "flatten_up_to LeafDef t = Inr [t]"
| "flatten_up_to (NodeDef k ds) (Leaf a) = Inl StructureMismatch"
| "flatten_up_to (NodeDef k ds) (Node k' cs) =
     (if k' = k then flatten_up_to_children ds cs else Inl StructureMismatch)"
| "flatten_up_to_children [] [] = Inr []"
| "flatten_up_to_children (d # ds) (c # cs) =
     (case flatten_up_to d c of
        Inl e \<Rightarrow> Inl e
      | Inr xs \<Rightarrow>
         (case flatten_up_to_children ds cs of
            Inl e \<Rightarrow> Inl e
          | Inr ys \<Rightarrow> Inr (xs @ ys)))"
| "flatten_up_to_children _ _ = Inl StructureMismatch"

text \<open>
  \<^verbatim>\<open>treedef.unflatten(leaves)\<close>: the values of \<open>leaves\<close> put at the leaf positions of
  \<open>treedef\<close>, from left to right. A value put there may itself be a container.
\<close>

fun unflatten_from :: "treedef \<Rightarrow> pytree list \<Rightarrow> (pytree \<times> pytree list) option"
  and unflatten_children :: "treedef list \<Rightarrow> pytree list \<Rightarrow> (pytree list \<times> pytree list) option" where
  "unflatten_from LeafDef [] = None"
| "unflatten_from LeafDef (x # xs) = Some (x, xs)"
| "unflatten_from (NodeDef k ds) xs =
     (case unflatten_children ds xs of
        None \<Rightarrow> None
      | Some (cs, rest) \<Rightarrow> Some (Node k cs, rest))"
| "unflatten_children [] xs = Some ([], xs)"
| "unflatten_children (d # ds) xs =
     (case unflatten_from d xs of
        None \<Rightarrow> None
      | Some (c, rest) \<Rightarrow>
         (case unflatten_children ds rest of
            None \<Rightarrow> None
          | Some (cs, rest') \<Rightarrow> Some (c # cs, rest')))"

definition tree_unflatten :: "treedef \<Rightarrow> pytree list \<Rightarrow> failure + pytree" where
  "tree_unflatten treedef xs =
     (case unflatten_from treedef xs of
        Some (t, []) \<Rightarrow> Inr t
      | _ \<Rightarrow> Inl LeafCountMismatch)"

text \<open>
  \<^verbatim>\<open>jax.tree_map(f, tree)\<close> and \<^verbatim>\<open>jax.tree_map(f, tree, rest)\<close>: flatten \<open>tree\<close>,
  take the subtrees of \<open>rest\<close> at its leaf positions, call \<open>f\<close> position by position and
  rebuild the structure of \<open>tree\<close> around the results. The structures are compared before
  \<open>f\<close> is called for the first time.
\<close>

definition tree_map :: "(ndarray \<Rightarrow> ('w, pytree) action) \<Rightarrow> pytree \<Rightarrow> ('w, pytree) action" where
  "tree_map f tree =
     (let (leaves, treedef) = tree_flatten tree
      in bind (map_calls f leaves) (\<lambda>ys. lift_result (tree_unflatten treedef ys)))"

definition tree_map2 ::
  "(ndarray \<Rightarrow> pytree \<Rightarrow> ('w, pytree) action) \<Rightarrow> pytree \<Rightarrow> pytree \<Rightarrow> ('w, pytree) action" where
  "tree_map2 f tree rest =
     (let (leaves, treedef) = tree_flatten tree
      in bind (lift_result (flatten_up_to treedef rest)) (\<lambda>rs.
         bind (map_calls (\<lambda>(x, r). f x r) (zip leaves rs)) (\<lambda>ys.
         lift_result (tree_unflatten treedef ys))))"

section \<open>Gradient transformations\<close>

text \<open>
  A gradient transformation is a pair of functions. \<^verbatim>\<open>OptState\<close>, \<^verbatim>\<open>Params\<close> and
  \<^verbatim>\<open>Updates\<close> are all structured values; the optional \<^verbatim>\<open>params\<close> argument of
  \<open>update\<close> is \<open>None\<close> when it is left out.
\<close>

record 'w GradientTransformation =
  init :: "pytree \<Rightarrow> pytree"
  update :: "pytree \<Rightarrow> pytree \<Rightarrow> pytree option \<Rightarrow> ('w, pytree \<times> pytree) action"

text \<open>\<^verbatim>\<open>class EmptyState(NamedTuple)\<close>: a named tuple class that declares no field.\<close>

definition EmptyState_class :: namedtuple_class where
  "EmptyState_class = \<lparr>class_name = ''EmptyState'', field_names = []\<rparr>"

text \<open>
  Calling a named tuple class takes one value for each field, and the instances of the
  class are the values so made.
\<close>

definition construct :: "namedtuple_class \<Rightarrow> pytree list \<Rightarrow> failure + pytree" where
  "construct c args =
     (if length args = length (field_names c) then Inr (Node (NamedTupleNode c) args)
      else Inl (Raised ''TypeError''))"

fun instance_of :: "namedtuple_class \<Rightarrow> pytree \<Rightarrow> bool" where
  "instance_of c (Node (NamedTupleNode c') vs) = (c' = c \<and> length vs = length (field_names c))"
| "instance_of c _ = False"

definition EmptyState :: pytree where
  "EmptyState = Node (NamedTupleNode EmptyState_class) []"

text \<open>
  \<^verbatim>\<open>identity()\<close>: \<open>init_fn\<close> returns \<^verbatim>\<open>EmptyState()\<close>; \<open>update_fn\<close> drops
  \<open>params\<close> and returns \<^verbatim>\<open>updates, state\<close>.
\<close>

definition identity :: "'w GradientTransformation" where
  "identity =
     (let init_fn = (\<lambda>_. EmptyState);
          update_fn = (\<lambda>updates state params. returns (updates, state))
      in \<lparr>init = init_fn, update = update_fn\<rparr>)"

text \<open>
  \<^verbatim>\<open>set_to_zero()\<close>: \<open>update_fn\<close> drops \<open>params\<close> and returns
  \<^verbatim>\<open>jax.tree_map(jnp.zeros_like, updates), state\<close>. The configuration under which
  \<^verbatim>\<open>jnp.zeros_like\<close> runs is the argument \<open>jax_enable_x64\<close>.
\<close>

definition set_to_zero :: "bool \<Rightarrow> 'w GradientTransformation" where
  "set_to_zero jax_enable_x64 =
     (let init_fn = (\<lambda>params. EmptyState);
          update_fn = (\<lambda>updates state params.
            bind (tree_map (\<lambda>a. returns (Leaf (zeros_like jax_enable_x64 a))) updates)
              (\<lambda>zeros. returns (zeros, state)))
      in \<lparr>init = init_fn, update = update_fn\<rparr>)"

text \<open>
  \<^verbatim>\<open>stateless(f, on_leaves)\<close>: \<open>update_fn\<close> has three branches, in the order of the
  source: the whole trees go to \<open>f\<close>; or \<open>f\<close> is mapped over the leaves of the updates
  and the params; or, without params, \<^verbatim>\<open>lambda u: f(u, None)\<close> is mapped over the
  leaves of the updates. An array handed to \<open>f\<close> is the structured value \<open>Leaf u\<close>.
\<close>

definition stateless ::
  "(pytree \<Rightarrow> pytree option \<Rightarrow> ('w, pytree) action) \<Rightarrow> bool \<Rightarrow> 'w GradientTransformation" where
  "stateless f on_leaves =
     (let init_fn = (\<lambda>_. EmptyState);
          update_fn = (\<lambda>updates state params.
            if \<not> on_leaves then
              bind (f updates params) (\<lambda>r. returns (r, state))
            else
              (case params of
                 Some ps \<Rightarrow>
                   bind (tree_map2 (\<lambda>u p. f (Leaf u) (Some p)) updates ps)
                     (\<lambda>r. returns (r, state))
               | None \<Rightarrow>
                   (let f' = (\<lambda>u. f (Leaf u) None)
                    in bind (tree_map f' updates) (\<lambda>r. returns (r, state)))))
      in \<lparr>init = init_fn, update = update_fn\<rparr>)"

section \<open>Wrapped functions\<close>

text \<open>
  What the claims say of the function handed to \<open>stateless\<close>. A call is pure when its
  outcome does not depend on the outside state and it leaves that state as it was; a
  function is pure when each of its calls is. A function returns an array for an array
  when every value it returns for an updates argument that is an array is an array.
\<close>

definition pure_action :: "('w, 'a) action \<Rightarrow> bool" where
  "pure_action m = (\<forall>w w'. fst (m w) = fst (m w') \<and> snd (m w) = w)"

definition pure_fn :: "(pytree \<Rightarrow> pytree option \<Rightarrow> ('w, pytree) action) \<Rightarrow> bool" where
  "pure_fn f = (\<forall>u p. pure_action (f u p))"

definition array_for_array :: "(pytree \<Rightarrow> pytree option \<Rightarrow> ('w, pytree) action) \<Rightarrow> bool" where
  "array_for_array f =
     (\<forall>a p w r w'. f (Leaf a) p w = (Inr r, w') \<longrightarrow> tree_structure r = LeafDef)"

text \<open>
  Two ways of making a wrapped function from a mathematical one: \<open>pure_call g\<close> touches
  no outside state, \<open>recording g\<close> appends the arguments of each call to a log kept in
  the outside state.
\<close>

definition pure_call ::
  "(pytree \<Rightarrow> pytree option \<Rightarrow> failure + pytree) \<Rightarrow> pytree \<Rightarrow> pytree option \<Rightarrow> ('w, pytree) action" where
  "pure_call g = (\<lambda>u p. lift_result (g u p))"

definition recording ::
  "(pytree \<Rightarrow> pytree option \<Rightarrow> failure + pytree) \<Rightarrow> pytree \<Rightarrow> pytree option \<Rightarrow>
     ((pytree \<times> pytree option) list, pytree) action" where
  "recording g = (\<lambda>u p log. (g u p, log @ [(u, p)]))"

section \<open>Example values\<close>

text \<open>
  The values of the examples: integer scalars as arrays of shape \<open>()\<close>, the structured
  value \<^verbatim>\<open>{a: 1, b: [2, 3]}\<close>, parameters of the same structure, the function
  \<^verbatim>\<open>lambda u, p: u + 1\<close> on integer arrays (a container plus one raises), and the
  function \<^verbatim>\<open>lambda u, p: [u, u]\<close>.
\<close>

definition int_scalar :: "int \<Rightarrow> ndarray" where
  "int_scalar n = \<lparr>dtype = Int32, shape = [], elems = [IntV n]\<rparr>"

definition example_updates :: pytree where
  "example_updates =
     Node (DictNode [''a'', ''b''])
       [Leaf (int_scalar 1), Node ListNode [Leaf (int_scalar 2), Leaf (int_scalar 3)]]"

definition example_params :: pytree where
  "example_params =
     Node (DictNode [''a'', ''b''])
       [Leaf (int_scalar 10), Node ListNode [Leaf (int_scalar 20), Leaf (int_scalar 30)]]"

fun add_one_scalar :: "scalar \<Rightarrow> scalar" where
  "add_one_scalar (IntV n) = IntV (n + 1)"
| "add_one_scalar x = x"

fun add_one :: "pytree \<Rightarrow> pytree option \<Rightarrow> failure + pytree" where
  "add_one (Leaf a) p =
     (if dtype a = Int32 then Inr (Leaf (a\<lparr>elems := map add_one_scalar (elems a)\<rparr>))
      else Inl (Raised ''NotImplemented''))"
| "add_one (Node k cs) p = Inl (Raised ''TypeError'')"

definition duplicate :: "pytree \<Rightarrow> pytree option \<Rightarrow> failure + pytree" where
  "duplicate u p = Inr (Node ListNode [u, u])"

text \<open>The expected results: zeros, and one added to each element.\<close>

definition example_zeros :: pytree where
  "example_zeros =
     Node (DictNode [''a'', ''b''])
       [Leaf (int_scalar 0), Node ListNode [Leaf (int_scalar 0), Leaf (int_scalar 0)]]"

definition example_incremented :: pytree where
  "example_incremented =
     Node (DictNode [''a'', ''b''])
       [Leaf (int_scalar 2), Node ListNode [Leaf (int_scalar 3), Leaf (int_scalar 4)]]"

text \<open>
  A function with a hidden global counter: it returns the number of calls made before
  this one.
\<close>

definition counting :: "pytree \<Rightarrow> pytree option \<Rightarrow> (int, pytree) action" where
  "counting u p = (\<lambda>n. (Inr (Leaf (int_scalar n)), n + 1))"

section \<open>Flattening and rebuilding\<close>

text \<open>
  The facts about the structured-value operations that the transformations rest on: a
  tree has as many leaves as its structure has leaf positions; rebuilding a structure
  from exactly that many values succeeds, and the values are then found again at its leaf
  positions.
\<close>

lemma length_tree_leaves: "length (tree_leaves t) = num_leaves (tree_structure t)"
  by (induction t) (simp_all add: length_concat comp_def cong: map_cong)

lemma unflatten_exact:
  "length ys = num_leaves d \<Longrightarrow>
     \<exists>t. unflatten_from d (ys @ rest) = Some (t, rest) \<and> flatten_up_to d t = Inr ys"
  "length ys = sum_list (map num_leaves ds) \<Longrightarrow>
     \<exists>ts. unflatten_children ds (ys @ rest) = Some (ts, rest)
        \<and> flatten_up_to_children ds ts = Inr ys"
proof (induction d "ys @ rest" and ds "ys @ rest" arbitrary: ys rest and ys rest
    rule: unflatten_from_unflatten_children.induct)
  case 1
  then show ?case by simp
next
  case (2 x xs)
  then show ?case by (cases ys) auto
next
  case (3 k ds)
  then show ?case by fastforce
next
  case 4
  then show ?case by simp
next
  case (5 d ds)
  from 5(3) obtain ys1 ys2 where ys: "ys = ys1 @ ys2" "length ys1 = num_leaves d"
    "length ys2 = sum_list (map num_leaves ds)"
    by (metis add_diff_cancel_left' append_take_drop_id length_drop length_take min.absorb2
        le_add1 list.simps(9) sum_list.Cons)
  from 5(1)[of ys1 "ys2 @ rest"] ys obtain t where
    t: "unflatten_from d (ys @ rest) = Some (t, ys2 @ rest)" "flatten_up_to d t = Inr ys1"
    by auto
  from 5(2)[OF t(1), where ys = ys2 and rest = rest] ys obtain ts where
    ts: "unflatten_children ds (ys2 @ rest) = Some (ts, rest)"
      "flatten_up_to_children ds ts = Inr ys2"
    by auto
  show ?case using t ts ys by simp
qed

lemma tree_unflatten_exact:
  assumes "length ys = num_leaves d"
  shows "\<exists>t. tree_unflatten d ys = Inr t \<and> flatten_up_to d t = Inr ys"
  using unflatten_exact(1)[OF assms, of "[]"] by (auto simp add: tree_unflatten_def)

lemma flatten_up_to_leaves:
  "flatten_up_to d t = Inr ys \<Longrightarrow> tree_leaves t = concat (map tree_leaves ys)"
  "flatten_up_to_children ds ts = Inr ys \<Longrightarrow>
     concat (map tree_leaves ts) = concat (map tree_leaves ys)"
  by (induction d t and ds ts arbitrary: ys and ys
      rule: flatten_up_to_flatten_up_to_children.induct)
     (auto split: if_splits sum.splits)

lemma flatten_up_to_structure:
  "flatten_up_to d t = Inr ys \<Longrightarrow> \<forall>y\<in>set ys. tree_structure y = LeafDef \<Longrightarrow>
     tree_structure t = d"
  "flatten_up_to_children ds ts = Inr ys \<Longrightarrow> \<forall>y\<in>set ys. tree_structure y = LeafDef \<Longrightarrow>
     map tree_structure ts = ds"
  by (induction d t and ds ts arbitrary: ys and ys
      rule: flatten_up_to_flatten_up_to_children.induct)
     (auto split: if_splits sum.splits)

lemma flatten_up_to_length:
  "flatten_up_to d t = Inr ys \<Longrightarrow> length ys = num_leaves d"
  "flatten_up_to_children ds ts = Inr ys \<Longrightarrow> length ys = sum_list (map num_leaves ds)"
  by (induction d t and ds ts arbitrary: ys and ys
      rule: flatten_up_to_flatten_up_to_children.induct)
     (auto split: if_splits sum.splits)

lemma structure_LeafDef: "tree_structure t = LeafDef \<Longrightarrow> \<exists>a. t = Leaf a"
  by (cases t) simp_all

lemma flatten_up_to_same_structure:
  "tree_structure t = d \<Longrightarrow> flatten_up_to d t = Inr (map Leaf (tree_leaves t))"
  "map tree_structure ts = ds \<Longrightarrow>
     flatten_up_to_children ds ts = Inr (map Leaf (concat (map tree_leaves ts)))"
  by (induction d t and ds ts rule: flatten_up_to_flatten_up_to_children.induct)
     (auto dest: structure_LeafDef)

section \<open>Sequences of calls\<close>

lemma map_calls_returns: "map_calls (\<lambda>x. returns (g x)) xs w = (Inr (map g xs), w)"
  by (induction xs) (simp_all add: returns_def bind_def)

lemma map_calls_length:
  "map_calls f xs w = (Inr ys, w') \<Longrightarrow> length ys = length xs"
  by (induction xs arbitrary: w ys)
     (auto simp add: returns_def bind_def split: prod.splits sum.splits)

lemma map_calls_map: "map_calls F (map h xs) = map_calls (\<lambda>x. F (h x)) xs"
  by (induction xs) simp_all

lemma map_calls_all:
  assumes "map_calls F xs w = (Inr ys, w')"
    and "\<And>x w y w'. F x w = (Inr y, w') \<Longrightarrow> P y"
  shows "\<forall>y\<in>set ys. P y"
  using assms(1)
proof (induction xs arbitrary: w ys)
  case Nil
  then show ?case by (simp add: returns_def)
next
  case (Cons x xs)
  then show ?case
    by (auto simp add: returns_def bind_def split: prod.splits sum.splits dest: assms(2))
qed

text \<open>The calls followed by the rebuilding, as \<open>tree_map\<close> and \<open>tree_map2\<close> do them.\<close>

lemma rebuild_fails:
  "map_calls F xs w = (Inl e, w') \<Longrightarrow>
     bind (map_calls F xs) (\<lambda>ys. lift_result (tree_unflatten d ys)) w = (Inl e, w')"
  by (simp add: bind_def)

lemma rebuild_returns:
  assumes "map_calls F xs w = (Inr ys, w')" and "length xs = num_leaves d"
  shows "\<exists>r. bind (map_calls F xs) (\<lambda>ys. lift_result (tree_unflatten d ys)) w = (Inr r, w')
           \<and> flatten_up_to d r = Inr ys"
proof -
  have "length ys = num_leaves d"
    using map_calls_length[OF assms(1)] assms(2) by simp
  from tree_unflatten_exact[OF this] obtain r where
    "tree_unflatten d ys = Inr r" "flatten_up_to d r = Inr ys"
    by blast
  then show ?thesis
    using assms(1) by (simp add: bind_def lift_result_def)
qed

lemma rebuild_returned:
  assumes "bind (map_calls F xs) (\<lambda>ys. lift_result (tree_unflatten d ys)) w = (Inr r, w')"
    and "length xs = num_leaves d"
  shows "\<exists>ys. map_calls F xs w = (Inr ys, w') \<and> flatten_up_to d r = Inr ys"
proof (cases "map_calls F xs w")
  case (Pair o1 w1)
  show ?thesis
  proof (cases o1)
    case (Inl e)
    with Pair assms(1) show ?thesis by (simp add: bind_def)
  next
    case (Inr ys)
    from rebuild_returns[OF Pair[unfolded Inr] assms(2)] assms(1) Pair Inr
    show ?thesis by auto
  qed
qed

text \<open>Mapping a function that returns an array and touches nothing else.\<close>

lemma tree_map_pure:
  "\<exists>t. tree_map (\<lambda>a. returns (Leaf (g a))) tree w = (Inr t, w) \<and>
     tree_structure t = tree_structure tree \<and> tree_leaves t = map g (tree_leaves tree)"
proof -
  let ?ys = "map (\<lambda>a. Leaf (g a)) (tree_leaves tree)"
  have "length ?ys = num_leaves (tree_structure tree)"
    by (simp add: length_tree_leaves)
  from tree_unflatten_exact[OF this] obtain t where
    t: "tree_unflatten (tree_structure tree) ?ys = Inr t"
       "flatten_up_to (tree_structure tree) t = Inr ?ys"
    by blast
  have "tree_structure t = tree_structure tree"
    using flatten_up_to_structure(1)[OF t(2)] by simp
  moreover have "tree_leaves t = map g (tree_leaves tree)"
    using flatten_up_to_leaves(1)[OF t(2)] by (simp add: comp_def)
  moreover have "tree_map (\<lambda>a. returns (Leaf (g a))) tree w = (Inr t, w)"
    using t(1)
    by (simp add: tree_map_def tree_flatten_def map_calls_returns bind_def lift_result_def)
  ultimately show ?thesis by blast
qed

section \<open>The update functions, unfolded\<close>

lemma set_to_zero_update:
  "update (set_to_zero x64_enabled) updates state params w =
     (case tree_map (\<lambda>a. returns (Leaf (zeros_like x64_enabled a))) updates w of
        (Inl e, w') \<Rightarrow> (Inl e, w')
      | (Inr zeros, w') \<Rightarrow> (Inr (zeros, state), w'))"
  by (simp add: set_to_zero_def bind_def returns_def split: prod.splits sum.splits)

lemma stateless_update_whole:
  "update (stateless f False) updates state params w =
     (case f updates params w of
        (Inl e, w') \<Rightarrow> (Inl e, w')
      | (Inr r, w') \<Rightarrow> (Inr (r, state), w'))"
  by (simp add: stateless_def bind_def returns_def split: prod.splits sum.splits)

lemma stateless_update_params:
  "update (stateless f True) updates state (Some ps) w =
     (case flatten_up_to (tree_structure updates) ps of
        Inl e \<Rightarrow> (Inl e, w)
      | Inr rs \<Rightarrow>
         (case bind (map_calls (\<lambda>(u, p). f (Leaf u) (Some p)) (zip (tree_leaves updates) rs))
                 (\<lambda>ys. lift_result (tree_unflatten (tree_structure updates) ys)) w of
            (Inl e, w') \<Rightarrow> (Inl e, w')
          | (Inr r, w') \<Rightarrow> (Inr (r, state), w')))"
  by (simp add: stateless_def tree_map2_def tree_flatten_def bind_def returns_def lift_result_def
      split: prod.splits sum.splits)

lemma stateless_update_no_params:
  "update (stateless f True) updates state None w =
     (case bind (map_calls (\<lambda>u. f (Leaf u) None) (tree_leaves updates))
             (\<lambda>ys. lift_result (tree_unflatten (tree_structure updates) ys)) w of
        (Inl e, w') \<Rightarrow> (Inl e, w')
      | (Inr r, w') \<Rightarrow> (Inr (r, state), w'))"
  by (simp add: stateless_def tree_map_def tree_flatten_def bind_def returns_def lift_result_def
      split: prod.splits sum.splits)

text \<open>
  When the structures of the updates and of the parameters do not fit, the call fails
  before the wrapped function is called.
\<close>

lemma stateless_on_leaves_mismatch:
  assumes "flatten_up_to (tree_structure updates) ps = Inl e"
  shows "update (stateless f True) updates state (Some ps) w = (Inl e, w)"
  using assms by (simp add: stateless_update_params)

lemma stateless_echo:
  assumes "update (stateless f on_leaves) updates state params w = (Inr (r, state'), w')"
  shows "state' = state"
proof (cases on_leaves)
  case False
  with assms show ?thesis
    by (auto simp add: stateless_update_whole split: prod.splits sum.splits)
next
  case True
  with assms show ?thesis
    by (cases params)
       (auto simp add: stateless_update_no_params stateless_update_params
          split: prod.splits sum.splits)
qed

section \<open>Pure calls\<close>

lemma pure_action_returns: "pure_action (returns x)"
  by (simp add: pure_action_def returns_def)

lemma pure_action_lift_result: "pure_action (lift_result r)"
  by (simp add: pure_action_def lift_result_def)

lemma pure_action_bind:
  assumes "pure_action m" and "\<And>x. pure_action (k x)"
  shows "pure_action (bind m k)"
  unfolding pure_action_def
proof (intro allI)
  fix w w'
  from assms(1) have m: "fst (m w) = fst (m w')" "snd (m w) = w" "snd (m w') = w'"
    by (simp_all add: pure_action_def)
  show "fst (bind m k w) = fst (bind m k w') \<and> snd (bind m k w) = w"
  proof (cases "fst (m w)")
    case (Inl e)
    with m show ?thesis
      by (cases "m w"; cases "m w'") (simp add: bind_def)
  next
    case (Inr x)
    from assms(2)[of x] have "fst (k x w) = fst (k x w')" "snd (k x w) = w"
      by (simp_all add: pure_action_def)
    with Inr m show ?thesis
      by (cases "m w"; cases "m w'") (auto simp add: bind_def)
  qed
qed

lemma pure_action_map_calls:
  assumes "\<And>x. pure_action (F x)"
  shows "pure_action (map_calls F xs)"
  by (induction xs) (simp_all add: pure_action_returns pure_action_bind assms)

lemma pure_action_tree_map:
  assumes "\<And>x. pure_action (F x)"
  shows "pure_action (tree_map F tree)"
  by (simp add: tree_map_def tree_flatten_def pure_action_bind pure_action_map_calls
      pure_action_lift_result assms)

lemma pure_action_tree_map2:
  assumes "\<And>x y. pure_action (F x y)"
  shows "pure_action (tree_map2 F tree rest)"
  by (simp add: tree_map2_def tree_flatten_def pure_action_bind pure_action_map_calls
      pure_action_lift_result assms split: prod.splits)

lemma pure_action_identity: "pure_action (update identity updates state params)"
  by (simp add: identity_def pure_action_returns)

lemma pure_action_set_to_zero: "pure_action (update (set_to_zero x64_enabled) updates state params)"
  by (simp add: set_to_zero_def pure_action_bind pure_action_returns pure_action_tree_map)

lemma pure_action_stateless:
  assumes "pure_fn f"
  shows "pure_action (update (stateless f on_leaves) updates state params)"
proof -
  from assms have f: "\<And>u p. pure_action (f u p)"
    by (simp add: pure_fn_def)
  show ?thesis
    by (cases params)
       (simp_all add: stateless_def pure_action_bind pure_action_returns
          pure_action_tree_map pure_action_tree_map2 f)
qed

lemma pure_fn_pure_call: "pure_fn (pure_call g)"
  by (simp add: pure_fn_def pure_call_def pure_action_lift_result)

text \<open>A function with a hidden counter is not pure: the same call returns two values.\<close>

lemma counting_not_repeatable:
  "update (stateless counting False) example_updates EmptyState None 0
     = (Inr (Leaf (int_scalar 0), EmptyState), 1)
   \<and> update (stateless counting False) example_updates EmptyState None 1
     = (Inr (Leaf (int_scalar 1), EmptyState), 2)"
  by code_simp

section \<open>The examples, evaluated\<close>

lemma set_to_zero_example:
  "update (set_to_zero False) example_updates EmptyState None ()
   = (Inr (example_zeros, EmptyState), ())"
  by code_simp

text \<open>
  A NumPy array of 64-bit floats: its zeros are 32-bit floats under the default
  configuration and 64-bit floats when \<^verbatim>\<open>jax_enable_x64\<close> is on.
\<close>

lemma zeros_like_float64_example:
  "zeros_like False \<lparr>dtype = Float64, shape = [2], elems = [FloatV 1, FloatV 2]\<rparr>
     = \<lparr>dtype = Float32, shape = [2], elems = [FloatV 0, FloatV 0]\<rparr>
   \<and> zeros_like True \<lparr>dtype = Float64, shape = [2], elems = [FloatV 1, FloatV 2]\<rparr>
     = \<lparr>dtype = Float64, shape = [2], elems = [FloatV 0, FloatV 0]\<rparr>"
  by code_simp

lemma stateless_on_leaves_example:
  "update (stateless (pure_call add_one) True) example_updates EmptyState None ()
   = (Inr (example_incremented, EmptyState), ())"
  by code_simp

lemma array_for_array_add_one: "array_for_array (pure_call add_one)"
  unfolding array_for_array_def
  by (auto simp add: pure_call_def lift_result_def split: if_splits)

section \<open>The identity transformation\<close>

text \<open>
  C1. For every updates value, every state value and every value of the optional params
  argument (also when it is left out), the update function of \<open>identity\<close> returns the
  pair of the updates and the state it was given: it does not fail and it leaves the
  outside state as it was.
\<close>

theorem identity_update_returns_arguments:
  "update identity updates state params w = (Inr (updates, state), w)"
  by (simp add: identity_def returns_def)

section \<open>The zero transformation\<close>

text \<open>
  C2. For every updates value and every state value, under either configuration, the
  update function of \<open>set_to_zero\<close> returns: it gives new updates with the structure of
  the updates it was given, whose leaves have the shapes of the given leaves and hold the
  zero of their own element type at every position, together with the state it was
  given.
\<close>

theorem set_to_zero_update_zeros:
  "\<exists>zeros. update (set_to_zero x64_enabled) updates state params w = (Inr (zeros, state), w)
     \<and> tree_structure zeros = tree_structure updates
     \<and> map shape (tree_leaves zeros) = map shape (tree_leaves updates)
     \<and> (\<forall>a\<in>set (tree_leaves zeros).
          length (elems a) = prod_list (shape a) \<and> (\<forall>x\<in>set (elems a). x = zero_of (dtype a)))"
proof -
  from tree_map_pure[of "zeros_like x64_enabled" updates w] obtain zeros where
    z: "tree_map (\<lambda>a. returns (Leaf (zeros_like x64_enabled a))) updates w = (Inr zeros, w)"
       "tree_structure zeros = tree_structure updates"
       "tree_leaves zeros = map (zeros_like x64_enabled) (tree_leaves updates)"
    by blast
  have "update (set_to_zero x64_enabled) updates state params w = (Inr (zeros, state), w)"
    by (simp add: set_to_zero_update z(1))
  moreover have "map shape (tree_leaves zeros) = map shape (tree_leaves updates)"
    by (simp add: z(3) zeros_like_def Let_def)
  moreover have "\<forall>a\<in>set (tree_leaves zeros).
      length (elems a) = prod_list (shape a) \<and> (\<forall>x\<in>set (elems a). x = zero_of (dtype a))"
    by (auto simp add: z(3) zeros_like_def Let_def)
  ultimately show ?thesis using z(2) by blast
qed

text \<open>
  On \<^verbatim>\<open>{a: 1, b: [2, 3]}\<close> the three leaves become \<open>0\<close>; an array of 64-bit floats
  becomes zeros under both configurations.
\<close>

theorem set_to_zero_update_zeros_witness:
  "update (set_to_zero False) example_updates EmptyState None ()
     = (Inr (example_zeros, EmptyState), ())
   \<and> tree_structure example_zeros = tree_structure example_updates
   \<and> map shape (tree_leaves example_zeros) = map shape (tree_leaves example_updates)
   \<and> map elems (tree_leaves example_zeros) = [[zero_of Int32], [zero_of Int32], [zero_of Int32]]
   \<and> update (set_to_zero False)
       (Leaf \<lparr>dtype = Float64, shape = [2], elems = [FloatV 1, FloatV 2]\<rparr>) EmptyState None ()
     = (Inr (Leaf \<lparr>dtype = Float32, shape = [2], elems = [zero_of Float32, zero_of Float32]\<rparr>,
          EmptyState), ())
   \<and> update (set_to_zero True)
       (Leaf \<lparr>dtype = Float64, shape = [2], elems = [FloatV 1, FloatV 2]\<rparr>) EmptyState None ()
     = (Inr (Leaf \<lparr>dtype = Float64, shape = [2], elems = [zero_of Float64, zero_of Float64]\<rparr>,
          EmptyState), ())"
proof -
  have "map elems (tree_leaves example_zeros) = [[zero_of Int32], [zero_of Int32], [zero_of Int32]]"
    by (simp add: example_zeros_def int_scalar_def)
  moreover have "update (set_to_zero False)
       (Leaf \<lparr>dtype = Float64, shape = [2], elems = [FloatV 1, FloatV 2]\<rparr>) EmptyState None ()
     = (Inr (Leaf \<lparr>dtype = Float32, shape = [2], elems = [zero_of Float32, zero_of Float32]\<rparr>,
          EmptyState), ())"
    by code_simp
  moreover have "update (set_to_zero True)
       (Leaf \<lparr>dtype = Float64, shape = [2], elems = [FloatV 1, FloatV 2]\<rparr>) EmptyState None ()
     = (Inr (Leaf \<lparr>dtype = Float64, shape = [2], elems = [zero_of Float64, zero_of Float64]\<rparr>,
          EmptyState), ())"
    by code_simp
  moreover from set_to_zero_update_zeros[of False example_updates EmptyState None "()"]
    set_to_zero_example
  have "tree_structure example_zeros = tree_structure example_updates
    \<and> map shape (tree_leaves example_zeros) = map shape (tree_leaves example_updates)"
    by auto
  ultimately show ?thesis using set_to_zero_example by simp
qed

lemma map_zeros_like_cong:
  assumes "map dtype xs = map dtype ys" and "map shape xs = map shape ys"
  shows "map (zeros_like x64_enabled) xs = map (zeros_like x64_enabled) ys"
proof -
  have "length xs = length ys"
    using assms(1) by (rule map_eq_imp_length_eq)
  then show ?thesis
    using assms by (induction xs ys rule: list_induct2) (simp_all add: zeros_like_def)
qed

text \<open>
  C10. The result of the update function of \<open>set_to_zero\<close> is the same for any two
  values of the params argument, and it is the same for any two updates values of the
  same structure whose leaves have the same element types and shapes, whatever numbers
  the leaves hold.
\<close>

theorem set_to_zero_update_independent:
  "update (set_to_zero x64_enabled) updates state params w
     = update (set_to_zero x64_enabled) updates state params' w
   \<and> (tree_structure updates = tree_structure updates'
        \<and> map dtype (tree_leaves updates) = map dtype (tree_leaves updates')
        \<and> map shape (tree_leaves updates) = map shape (tree_leaves updates')
      \<longrightarrow> update (set_to_zero x64_enabled) updates state params w
          = update (set_to_zero x64_enabled) updates' state params' w)"
proof -
  have "update (set_to_zero x64_enabled) u state p w =
      (map_sum id (\<lambda>z. (z, state))
         (tree_unflatten (tree_structure u)
            (map (\<lambda>a. Leaf (zeros_like x64_enabled a)) (tree_leaves u))), w)"
    for u and p :: "pytree option"
    by (simp add: set_to_zero_update tree_map_def tree_flatten_def map_calls_returns
        bind_def lift_result_def split: sum.splits)
  moreover have "map (\<lambda>a. Leaf (zeros_like x64_enabled a)) xs = map Leaf (map (zeros_like x64_enabled) xs)"
    for xs
    by simp
  ultimately show ?thesis
    using map_zeros_like_cong[of "tree_leaves updates" "tree_leaves updates'" x64_enabled]
    by (auto simp del: map_map)
qed

text \<open>
  The two example trees hold different numbers in leaves of the same element type and
  shape; one call is made without params, the other with.
\<close>

theorem set_to_zero_update_independent_witness:
  "tree_structure example_updates = tree_structure example_params
   \<and> map dtype (tree_leaves example_updates) = map dtype (tree_leaves example_params)
   \<and> map shape (tree_leaves example_updates) = map shape (tree_leaves example_params)
   \<and> example_updates \<noteq> example_params
   \<and> update (set_to_zero False) example_updates EmptyState None ()
       = update (set_to_zero False) example_params EmptyState (Some example_params) ()"
proof -
  have "tree_structure example_updates = tree_structure example_params"
    and "map dtype (tree_leaves example_updates) = map dtype (tree_leaves example_params)"
    and "map shape (tree_leaves example_updates) = map shape (tree_leaves example_params)"
    and "example_updates \<noteq> example_params"
    by (simp_all add: example_updates_def example_params_def int_scalar_def)
  with set_to_zero_update_independent[where updates = example_updates and state = EmptyState
      and x64_enabled = False and params = None and w = "()" and params' = "Some example_params"
      and updates' = example_params]
  show ?thesis by blast
qed

section \<open>The stateless wrapper\<close>

text \<open>
  C3. For every function \<open>f\<close> and all updates, state and params (also when params is
  left out), when \<open>on_leaves\<close> is false the update function of \<open>stateless f\<close> does what
  one call of \<open>f\<close> on the whole updates and the whole params does, and returns the value
  \<open>f\<close> returned paired with the state it was given; a failure of \<open>f\<close> is passed on. With
  a function that records its calls, the record afterwards holds that one call.
\<close>

theorem stateless_whole_tree_update:
  "update (stateless f False) updates state params w =
     (case f updates params w of
        (Inl e, w') \<Rightarrow> (Inl e, w')
      | (Inr r, w') \<Rightarrow> (Inr (r, state), w'))
   \<and> update (stateless (recording g) False) updates state params [] =
     (map_sum id (\<lambda>r. (r, state)) (g updates params), [(updates, params)])"
  by (auto simp add: stateless_def bind_def returns_def recording_def
      split: prod.splits sum.splits)

text \<open>
  The example of the specification: with \<^verbatim>\<open>f = lambda u, p: u + 1\<close>, the updates
  \<^verbatim>\<open>[1, 2, 3]\<close> and no params, the result is \<^verbatim>\<open>([2, 3, 4], EmptyState())\<close>.
\<close>

theorem stateless_whole_tree_update_witness:
  "update (stateless (pure_call add_one) False)
     (Leaf \<lparr>dtype = Int32, shape = [3], elems = [IntV 1, IntV 2, IntV 3]\<rparr>) EmptyState None ()
   = (Inr (Leaf \<lparr>dtype = Int32, shape = [3], elems = [IntV 2, IntV 3, IntV 4]\<rparr>, EmptyState), ())"
  using stateless_whole_tree_update[where f = "pure_call add_one" and state = EmptyState
      and updates = "Leaf \<lparr>dtype = Int32, shape = [3], elems = [IntV 1, IntV 2, IntV 3]\<rparr>"
      and params = None and w = "()"]
  by (simp add: pure_call_def lift_result_def)

text \<open>
  C4, as amended. For every function \<open>f\<close> and all updates, state and params whose
  structure is that of the updates, when \<open>on_leaves\<close> is true the update function of
  \<open>stateless f\<close> calls \<open>f\<close> on each pair of corresponding leaves of the updates and the
  params, from left to right and on nothing else; when params is left out it calls \<open>f\<close>
  on each leaf of the updates with \<open>None\<close> for the params. In both cases a failure of
  \<open>f\<close> is passed on, and otherwise the result has the containers of the updates with the
  values \<open>f\<close> returned at the leaf positions, paired with the state that was given.
\<close>

theorem stateless_on_leaves_update:
  assumes "tree_structure ps = tree_structure updates"
  shows "(case map_calls (\<lambda>(u, p). f (Leaf u) (Some (Leaf p)))
                 (zip (tree_leaves updates) (tree_leaves ps)) w of
            (Inl e, w') \<Rightarrow> update (stateless f True) updates state (Some ps) w = (Inl e, w')
          | (Inr ys, w') \<Rightarrow>
              (\<exists>r. update (stateless f True) updates state (Some ps) w = (Inr (r, state), w')
                 \<and> flatten_up_to (tree_structure updates) r = Inr ys))
       \<and> (case map_calls (\<lambda>u. f (Leaf u) None) (tree_leaves updates) w of
            (Inl e, w') \<Rightarrow> update (stateless f True) updates state None w = (Inl e, w')
          | (Inr ys, w') \<Rightarrow>
              (\<exists>r. update (stateless f True) updates state None w = (Inr (r, state), w')
                 \<and> flatten_up_to (tree_structure updates) r = Inr ys))"
proof
  let ?d = "tree_structure updates"
  let ?F = "\<lambda>(u, p). f (Leaf u) (Some p)"
  let ?G = "\<lambda>(u, p). f (Leaf u) (Some (Leaf p))"
  let ?xs = "zip (tree_leaves updates) (tree_leaves ps)"
  have up: "flatten_up_to ?d ps = Inr (map Leaf (tree_leaves ps))"
    using flatten_up_to_same_structure(1)[OF assms] .
  have zip: "zip (tree_leaves updates) (map Leaf (tree_leaves ps))
      = map (\<lambda>(u, p). (u, Leaf p)) ?xs"
    by (simp add: zip_map2)
  have calls: "map_calls ?F (zip (tree_leaves updates) (map Leaf (tree_leaves ps)))
      = map_calls ?G ?xs"
    unfolding zip map_calls_map by (simp add: case_prod_unfold)
  have len: "length ?xs = num_leaves ?d"
    using assms by (simp add: length_tree_leaves)
  show "case map_calls ?G ?xs w of
          (Inl e, w') \<Rightarrow> update (stateless f True) updates state (Some ps) w = (Inl e, w')
        | (Inr ys, w') \<Rightarrow>
            (\<exists>r. update (stateless f True) updates state (Some ps) w = (Inr (r, state), w')
               \<and> flatten_up_to ?d r = Inr ys)"
  proof (cases "map_calls ?G ?xs w")
    case (Pair o1 w1)
    show ?thesis
    proof (cases o1)
      case (Inl e)
      with Pair rebuild_fails[of ?G ?xs w e w1 ?d] show ?thesis
        by (simp add: stateless_update_params up calls)
    next
      case (Inr ys)
      with Pair rebuild_returns[of ?G ?xs w ys w1 ?d, OF _ len] show ?thesis
        by (auto simp add: stateless_update_params up calls)
    qed
  qed
next
  let ?d = "tree_structure updates"
  let ?G = "\<lambda>u. f (Leaf u) None"
  have len: "length (tree_leaves updates) = num_leaves ?d"
    by (rule length_tree_leaves)
  show "case map_calls ?G (tree_leaves updates) w of
          (Inl e, w') \<Rightarrow> update (stateless f True) updates state None w = (Inl e, w')
        | (Inr ys, w') \<Rightarrow>
            (\<exists>r. update (stateless f True) updates state None w = (Inr (r, state), w')
               \<and> flatten_up_to ?d r = Inr ys)"
  proof (cases "map_calls ?G (tree_leaves updates) w")
    case (Pair o1 w1)
    show ?thesis
    proof (cases o1)
      case (Inl e)
      with Pair rebuild_fails[of ?G "tree_leaves updates" w e w1 ?d] show ?thesis
        by (simp add: stateless_update_no_params)
    next
      case (Inr ys)
      with Pair rebuild_returns[of ?G "tree_leaves updates" w ys w1 ?d, OF _ len] show ?thesis
        by (auto simp add: stateless_update_no_params)
    qed
  qed
qed

text \<open>
  With a function that adds one and records its calls, on \<^verbatim>\<open>{a: 1, b: [2, 3]}\<close> and
  parameters \<^verbatim>\<open>{a: 10, b: [20, 30]}\<close>: the record holds the three pairs of leaves,
  and the results \<open>2\<close>, \<open>3\<close>, \<open>4\<close> stand at the leaf positions.
\<close>

theorem stateless_on_leaves_update_witness:
  "tree_structure example_params = tree_structure example_updates
   \<and> (\<exists>r. update (stateless (recording add_one) True) example_updates EmptyState
             (Some example_params) []
           = (Inr (r, EmptyState),
              [(Leaf (int_scalar 1), Some (Leaf (int_scalar 10))),
               (Leaf (int_scalar 2), Some (Leaf (int_scalar 20))),
               (Leaf (int_scalar 3), Some (Leaf (int_scalar 30)))])
         \<and> flatten_up_to (tree_structure example_updates) r
           = Inr [Leaf (int_scalar 2), Leaf (int_scalar 3), Leaf (int_scalar 4)])
   \<and> (\<exists>r. update (stateless (recording add_one) True) example_updates EmptyState None []
           = (Inr (r, EmptyState),
              [(Leaf (int_scalar 1), None), (Leaf (int_scalar 2), None),
               (Leaf (int_scalar 3), None)])
         \<and> flatten_up_to (tree_structure example_updates) r
           = Inr [Leaf (int_scalar 2), Leaf (int_scalar 3), Leaf (int_scalar 4)])"
proof -
  have same: "tree_structure example_params = tree_structure example_updates"
    by (simp add: example_params_def example_updates_def)
  have pairs: "map_calls (\<lambda>(u, p). recording add_one (Leaf u) (Some (Leaf p)))
        (zip (tree_leaves example_updates) (tree_leaves example_params)) []
      = (Inr [Leaf (int_scalar 2), Leaf (int_scalar 3), Leaf (int_scalar 4)],
         [(Leaf (int_scalar 1), Some (Leaf (int_scalar 10))),
          (Leaf (int_scalar 2), Some (Leaf (int_scalar 20))),
          (Leaf (int_scalar 3), Some (Leaf (int_scalar 30)))])"
    by code_simp
  have singles: "map_calls (\<lambda>u. recording add_one (Leaf u) None) (tree_leaves example_updates) []
      = (Inr [Leaf (int_scalar 2), Leaf (int_scalar 3), Leaf (int_scalar 4)],
         [(Leaf (int_scalar 1), None), (Leaf (int_scalar 2), None), (Leaf (int_scalar 3), None)])"
    by code_simp
  from stateless_on_leaves_update[OF same, where f = "recording add_one" and w = "[]"
      and state = EmptyState]
  show ?thesis
    unfolding pairs singles using same by simp
qed

text \<open>
  The claim as it was stated, for every params, fails. With an array as the params of
  \<^verbatim>\<open>{a: 1, b: [2, 3]}\<close> the call raises before \<open>f\<close> is called, and returns no
  state. With a single array as the updates and \<^verbatim>\<open>{a: 10, b: [20, 30]}\<close> as the
  params, \<open>f\<close> is called once, on the array and the whole of the params, not on a pair
  of leaves.
\<close>

theorem stateless_on_leaves_params_counterexample:
  "update (stateless (recording add_one) True) example_updates EmptyState
       (Some (Leaf (int_scalar 1))) []
     = (Inl StructureMismatch, [])
   \<and> update (stateless (recording add_one) True) (Leaf (int_scalar 1)) EmptyState
       (Some example_params) []
     = (Inr (Leaf (int_scalar 2), EmptyState), [(Leaf (int_scalar 1), Some example_params)])
   \<and> tree_structure example_params \<noteq> LeafDef"
  by code_simp

lemma stateless_on_leaves_structure:
  assumes af: "array_for_array f"
    and ret: "update (stateless f True) updates state params w = (Inr (r, state'), w')"
  shows "tree_structure r = tree_structure updates"
proof (cases params)
  case None
  let ?d = "tree_structure updates"
  let ?G = "\<lambda>u. f (Leaf u) None"
  from ret None
  have "bind (map_calls ?G (tree_leaves updates)) (\<lambda>ys. lift_result (tree_unflatten ?d ys)) w
          = (Inr r, w')"
    by (auto simp add: stateless_update_no_params split: prod.splits sum.splits)
  from rebuild_returned[OF this length_tree_leaves] obtain ys where
    ys: "map_calls ?G (tree_leaves updates) w = (Inr ys, w')" "flatten_up_to ?d r = Inr ys"
    by blast
  have "\<forall>y\<in>set ys. tree_structure y = LeafDef"
  proof (rule map_calls_all[OF ys(1)])
    fix x w y w' assume "f (Leaf x) None w = (Inr y, w')"
    with af show "tree_structure y = LeafDef"
      unfolding array_for_array_def by blast
  qed
  with ys(2) show ?thesis by (rule flatten_up_to_structure(1))
next
  case (Some ps)
  let ?d = "tree_structure updates"
  let ?G = "\<lambda>(u, p). f (Leaf u) (Some p)"
  from ret Some obtain rs where
    rs: "flatten_up_to ?d ps = Inr rs"
    and b: "bind (map_calls ?G (zip (tree_leaves updates) rs))
              (\<lambda>ys. lift_result (tree_unflatten ?d ys)) w = (Inr r, w')"
    by (auto simp add: stateless_update_params split: prod.splits sum.splits)
  have "length (zip (tree_leaves updates) rs) = num_leaves ?d"
    using flatten_up_to_length(1)[OF rs] by (simp add: length_tree_leaves)
  from rebuild_returned[OF b this] obtain ys where
    ys: "map_calls ?G (zip (tree_leaves updates) rs) w = (Inr ys, w')"
        "flatten_up_to ?d r = Inr ys"
    by blast
  have "\<forall>y\<in>set ys. tree_structure y = LeafDef"
  proof (rule map_calls_all[OF ys(1)])
    fix x w y w' assume "?G x w = (Inr y, w')"
    with af show "tree_structure y = LeafDef"
      unfolding array_for_array_def by (cases x) fastforce
  qed
  with ys(2) show ?thesis by (rule flatten_up_to_structure(1))
qed

lemma stateless_whole_tree_returned:
  assumes "update (stateless f False) updates state params w = (Inr (r, state'), w')"
  shows "f updates params w = (Inr r, w')"
  using assms by (auto simp add: stateless_update_whole split: prod.splits sum.splits)

text \<open>
  C7, as amended. For every function \<open>f\<close>, either setting of \<open>on_leaves\<close> and all
  updates, state and params, the second component of the pair that the update function
  of \<open>stateless f\<close> returns is the state it was given; it is \<open>EmptyState\<close> when the state
  given is the one that the init function of \<open>stateless f\<close> returns.
\<close>

theorem stateless_update_echoes_state_from_init:
  assumes "update (stateless f on_leaves) updates state params w = (Inr (r, state'), w')"
  shows "state' = state
     \<and> (state = init (stateless f on_leaves) example \<longrightarrow> state' = EmptyState)"
  using stateless_echo[OF assms]
  by (simp add: stateless_def)

theorem stateless_update_echoes_state_from_init_witness:
  "update (stateless (pure_call add_one) False) (Leaf (int_scalar 1))
       (init (stateless (pure_call add_one) False :: unit GradientTransformation) example_params)
       None ()
     = (Inr (Leaf (int_scalar 2), EmptyState), ())"
proof -
  let ?t = "stateless (pure_call add_one) False :: unit GradientTransformation"
  have run: "update ?t (Leaf (int_scalar 1)) (init ?t example_params) None ()
     = (Inr (Leaf (int_scalar 2), init ?t example_params), ())"
    by code_simp
  from stateless_update_echoes_state_from_init[OF run, where example = example_params]
  have "init ?t example_params = EmptyState"
    by blast
  with run show ?thesis by simp
qed

text \<open>
  The claim as it was stated fails: given an array as the state, the update function
  returns that array, which is not \<open>EmptyState\<close>.
\<close>

theorem state_not_EmptyState_counterexample:
  "update (stateless (pure_call add_one) False) (Leaf (int_scalar 1)) (Leaf (int_scalar 7)) None ()
     = (Inr (Leaf (int_scalar 2), Leaf (int_scalar 7)), ())
   \<and> Leaf (int_scalar 7) \<noteq> EmptyState"
  by code_simp

section \<open>Properties of all three transformations\<close>

text \<open>
  C5, as amended. For every updates value, the new updates returned by the update
  functions of \<open>identity\<close> and of \<open>set_to_zero\<close> have the structure of the updates given.
  Those returned by the update function of \<open>stateless f\<close> have it, when \<open>on_leaves\<close> is
  false, whenever the value that \<open>f\<close> returns for these updates and params has the
  structure of the updates; and when \<open>on_leaves\<close> is true, with or without params,
  whenever \<open>f\<close> returns an array each time it is called on an array.
\<close>

theorem update_preserves_structure:
  "(\<exists>r. update identity updates state params w = (Inr (r, state), w)
        \<and> tree_structure r = tree_structure updates)
   \<and> (\<exists>r. update (set_to_zero x64_enabled) updates state params w = (Inr (r, state), w)
        \<and> tree_structure r = tree_structure updates)
   \<and> ((\<forall>r w1. f updates params w = (Inr r, w1) \<longrightarrow> tree_structure r = tree_structure updates)
        \<and> update (stateless f False) updates state params w = (Inr (r', state'), w')
      \<longrightarrow> tree_structure r' = tree_structure updates)
   \<and> (array_for_array f
        \<and> update (stateless f True) updates state params w = (Inr (r', state'), w')
      \<longrightarrow> tree_structure r' = tree_structure updates)"
proof -
  from tree_map_pure[of "zeros_like x64_enabled" updates w] obtain zeros where
    "tree_map (\<lambda>a. returns (Leaf (zeros_like x64_enabled a))) updates w = (Inr zeros, w)"
    "tree_structure zeros = tree_structure updates"
    by blast
  then have "\<exists>r. update (set_to_zero x64_enabled) updates state params w = (Inr (r, state), w)
        \<and> tree_structure r = tree_structure updates"
    by (simp add: set_to_zero_update)
  moreover have "\<exists>r. update identity updates state params w = (Inr (r, state), w)
        \<and> tree_structure r = tree_structure updates"
    by (simp add: identity_def returns_def)
  moreover have "tree_structure r' = tree_structure updates"
    if "\<forall>r w1. f updates params w = (Inr r, w1) \<longrightarrow> tree_structure r = tree_structure updates"
      and "update (stateless f False) updates state params w = (Inr (r', state'), w')"
    using that(1) stateless_whole_tree_returned[OF that(2)] by blast
  moreover have "tree_structure r' = tree_structure updates"
    if "array_for_array f"
      and "update (stateless f True) updates state params w = (Inr (r', state'), w')"
    using that by (rule stateless_on_leaves_structure)
  ultimately show ?thesis by blast
qed

text \<open>
  With \<^verbatim>\<open>f = lambda u, p: u + 1\<close>: in leaf mode on \<^verbatim>\<open>{a: 1, b: [2, 3]}\<close>, and in
  whole-tree mode on a single array.
\<close>

theorem update_preserves_structure_witness:
  "array_for_array (pure_call add_one :: pytree \<Rightarrow> pytree option \<Rightarrow> (unit, pytree) action)
   \<and> update (stateless (pure_call add_one) True) example_updates EmptyState None ()
       = (Inr (example_incremented, EmptyState), ())
   \<and> tree_structure example_incremented = tree_structure example_updates
   \<and> update (stateless (pure_call add_one) False) (Leaf (int_scalar 1)) EmptyState None ()
       = (Inr (Leaf (int_scalar 2), EmptyState), ())
   \<and> tree_structure (Leaf (int_scalar 2)) = tree_structure (Leaf (int_scalar 1))"
proof -
  let ?f = "pure_call add_one :: pytree \<Rightarrow> pytree option \<Rightarrow> (unit, pytree) action"
  have arrays: "array_for_array ?f"
    by (rule array_for_array_add_one)
  have leaves: "update (stateless ?f True) example_updates EmptyState None ()
      = (Inr (example_incremented, EmptyState), ())"
    by (rule stateless_on_leaves_example)
  from update_preserves_structure[where f = ?f and updates = example_updates
      and state = EmptyState and params = None and w = "()" and r' = example_incremented
      and state' = EmptyState and w' = "()"] arrays leaves
  have one: "tree_structure example_incremented = tree_structure example_updates"
    by blast
  have whole: "update (stateless ?f False) (Leaf (int_scalar 1)) EmptyState None ()
      = (Inr (Leaf (int_scalar 2), EmptyState), ())"
    by code_simp
  have returned: "\<forall>r w1. ?f (Leaf (int_scalar 1)) None () = (Inr r, w1)
      \<longrightarrow> tree_structure r = tree_structure (Leaf (int_scalar 1))"
    by (auto simp add: pure_call_def lift_result_def int_scalar_def)
  from update_preserves_structure[where f = ?f and updates = "Leaf (int_scalar 1)"
      and state = EmptyState and params = None and w = "()" and r' = "Leaf (int_scalar 2)"
      and state' = EmptyState and w' = "()"] returned whole
  have two: "tree_structure (Leaf (int_scalar 2)) = tree_structure (Leaf (int_scalar 1))"
    by blast
  from arrays leaves one whole two show ?thesis by blast
qed

text \<open>
  The claim as it was stated, for any wrapped function, fails: with
  \<^verbatim>\<open>f = lambda u, p: [u, u]\<close> and a single array as the updates, the new updates are
  a list of two arrays, in both modes.
\<close>

theorem structure_not_preserved_counterexample:
  "update (stateless (pure_call duplicate) False) (Leaf (int_scalar 1)) EmptyState None ()
     = (Inr (Node ListNode [Leaf (int_scalar 1), Leaf (int_scalar 1)], EmptyState), ())
   \<and> update (stateless (pure_call duplicate) True) (Leaf (int_scalar 1)) EmptyState None ()
     = (Inr (Node ListNode [Leaf (int_scalar 1), Leaf (int_scalar 1)], EmptyState), ())
   \<and> tree_structure (Node ListNode [Leaf (int_scalar 1), Leaf (int_scalar 1)])
       \<noteq> tree_structure (Leaf (int_scalar 1))"
  by code_simp

text \<open>
  C6. For every input value, the init function of each of \<open>identity\<close>, \<open>set_to_zero\<close>
  and \<open>stateless f\<close> returns \<open>EmptyState\<close>.
\<close>

theorem init_returns_EmptyState:
  "init identity x = EmptyState \<and> init (set_to_zero x64_enabled) x = EmptyState
     \<and> init (stateless f on_leaves) x = EmptyState"
  by (simp add: identity_def set_to_zero_def stateless_def)

text \<open>
  C8. For all updates, state and params, calling the update function of \<open>identity\<close>, of
  \<open>set_to_zero\<close> or, when \<open>f\<close> is pure, of \<open>stateless f\<close> twice in a row with these
  arguments gives the same outcome both times, whether new updates and state or a
  failure; and the outcome does not depend on the outside state in which the call is
  made. Equality of arrays is equality of their element types, shapes and bit patterns.
\<close>

theorem update_twice_same_result:
  assumes "t = identity \<or> t = set_to_zero x64_enabled \<or> (pure_fn f \<and> t = stateless f on_leaves)"
  shows "(case update t updates state params w of
            (first, w1) \<Rightarrow>
              (case update t updates state params w1 of
                 (second, w2) \<Rightarrow> second = first))
         \<and> fst (update t updates state params w) = fst (update t updates state params w')"
proof -
  from assms have "pure_action (update t updates state params)"
    by (auto simp add: pure_action_identity pure_action_set_to_zero pure_action_stateless)
  then show ?thesis
    by (auto simp add: pure_action_def split: prod.splits) (metis fst_conv)
qed

theorem update_twice_same_result_witness:
  "pure_fn (pure_call add_one :: pytree \<Rightarrow> pytree option \<Rightarrow> (unit, pytree) action)
   \<and> (case update (stateless (pure_call add_one) True) example_updates EmptyState None () of
        (first, w1) \<Rightarrow>
          (case update (stateless (pure_call add_one) True) example_updates EmptyState None w1 of
             (second, w2) \<Rightarrow> second = first \<and> first = Inr (example_incremented, EmptyState)))"
  using update_twice_same_result[where t = "stateless (pure_call add_one) True"
      and f = "pure_call add_one" and on_leaves = True and updates = example_updates
      and state = EmptyState and params = None and w = "()" and w' = "()"]
    pure_fn_pure_call[of add_one] stateless_on_leaves_example
  by (simp split: prod.splits)

section \<open>The empty state\<close>

text \<open>
  C9. The class \<open>EmptyState\<close> declares no field, calling it without arguments gives the
  value \<open>EmptyState\<close>, and any two instances of the class are equal.
\<close>

theorem EmptyState_no_fields_all_equal:
  "field_names EmptyState_class = []
     \<and> construct EmptyState_class [] = Inr EmptyState
     \<and> instance_of EmptyState_class EmptyState
     \<and> (instance_of EmptyState_class a \<and> instance_of EmptyState_class b \<longrightarrow> a = b)"
proof -
  have "instance_of EmptyState_class t \<Longrightarrow> t = EmptyState" for t
    by (cases "(EmptyState_class, t)" rule: instance_of.cases)
       (auto simp add: EmptyState_class_def EmptyState_def)
  then show ?thesis
    by (auto simp add: EmptyState_class_def EmptyState_def construct_def)
qed

theorem EmptyState_no_fields_all_equal_witness:
  "instance_of EmptyState_class EmptyState
   \<and> instance_of EmptyState_class (Node (NamedTupleNode EmptyState_class) [])
   \<and> EmptyState = Node (NamedTupleNode EmptyState_class) []"
  using EmptyState_no_fields_all_equal[of EmptyState "Node (NamedTupleNode EmptyState_class) []"]
  by (simp add: EmptyState_class_def)

end
